theory Spec2Isabelle
  imports Main "HOL-Library.AList"
begin

section \<open>The call interface of src/components/call/call-interface.tsx\<close>

text \<open>
  The development embeds the \<^verbatim>\<open>CallInterface\<close> component (lines 38 to 215 of the
  file) and the \<^verbatim>\<open>startCall\<close> handler of \<^verbatim>\<open>CallManager\<close> (lines 603 to 606).
  The component is a function of React state hooks and refs, whose handlers mutate
  browser objects (media tracks, peer connections, the console). The model keeps all of
  them in one record and every handler is a function from the state before to the state
  after. Browser objects are shared by reference (a track is held by the local stream
  and by a sender of every peer connection), so tracks and peer connections live in a
  store indexed by address, and streams, senders and the \<^verbatim>\<open>peerConnections\<close> ref
  hold addresses.

  An \<^verbatim>\<open>async\<close> function is modelled by its continuation: the outcome of the awaited
  promise is an argument, a rejection being \<open>Inl\<close>, and the continuation is applied
  to the state of the page at the moment the promise settles.

  A function declared in the body of the component closes over the bindings of the
  render that created it. Where a handler can run later than the render that created it
  (the effect clean-up, the \<^verbatim>\<open>onended\<close> handler), the binding of \<^verbatim>\<open>localStream\<close> it
  sees is an explicit argument, written \<open>localStream'\<close>. Refs (\<^verbatim>\<open>peerConnections.current\<close>)
  are read from the current state.

  Left out: the remote video elements and the \<^verbatim>\<open>ontrack\<close> handler that fills them, the
  speaker-mute and participant-panel flags, and the rendering.
\<close>

subsection \<open>Browser objects\<close>

text \<open>\<^verbatim>\<open>'audio' | 'video'\<close>: the call type of the props and the kind of a track.\<close>

datatype media = audio | video

type_synonym track_id = nat
type_synonym pc_id = nat

text \<open>A \<^verbatim>\<open>MediaStream\<close>: the addresses of its tracks, in \<^verbatim>\<open>getTracks()\<close> order.\<close>

type_synonym stream = "track_id list"

text \<open>
  A \<^verbatim>\<open>MediaStreamTrack\<close>. \<open>ended\<close> is \<^verbatim>\<open>readyState === 'ended'\<close>: the capture
  device is released. \<open>onended\<close> is the handler property: \<open>None\<close> when no handler
  is set, \<open>Some ls\<close> for the handler of lines 182 to 196 whose closure holds the
  binding \<open>ls\<close> of \<^verbatim>\<open>localStream\<close>.
\<close>

record track =
  kind :: media
  enabled :: bool
  ended :: bool
  onended :: "stream option option"

text \<open>
  An \<^verbatim>\<open>RTCRtpSender\<close>: the track it sends, and how many times \<^verbatim>\<open>replaceTrack\<close> was
  called on it.
\<close>

record sender =
  track :: "track_id option"
  replaceCount :: nat

text \<open>
  An \<^verbatim>\<open>RTCPeerConnection\<close>: its senders in \<^verbatim>\<open>getSenders()\<close> order, whether
  \<^verbatim>\<open>close()\<close> was called, and the remote ICE candidates given to it.
\<close>

record pc =
  senders :: "sender list"
  closed :: bool
  remoteCandidates :: "string list"

text \<open>
  What a promise of the model rejects with. \<open>DeviceUnavailable\<close> and
  \<open>UserCancelled\<close> stand for the rejections of \<^verbatim>\<open>getUserMedia\<close> and
  \<^verbatim>\<open>getDisplayMedia\<close>, \<open>TypeError\<close> for the assignment to a property of
  \<^verbatim>\<open>undefined\<close>; \<open>AlreadyInSession\<close> is the rejection the specification names
  for \<^verbatim>\<open>startCall\<close>.
\<close>

datatype error = DeviceUnavailable | UserCancelled | TypeError | AlreadyInSession

text \<open>The lines the source writes to the console.\<close>

datatype log =
    ErrorAccessingMedia error
  | ErrorStartingScreenShare error
  | IceCandidate string
  | StartingCall media string

subsection \<open>Props and state\<close>

record participant =
  p_id :: string
  p_name :: string
  p_isAudioEnabled :: bool
  p_isVideoEnabled :: bool
  p_isSpeaking :: bool

text \<open>
  The props of \<^verbatim>\<open>CallInterface\<close>, with \<open>user\<close> the value of \<^verbatim>\<open>user?.id\<close>:
  \<open>None\<close> when nobody is logged in.
\<close>

record props =
  chatId :: string
  callType :: media
  participants :: "participant list"
  user :: "string option"

text \<open>
  The page: the stores of tracks and peer connections (\<open>pc_count\<close> is the next free
  address), the console, the state hooks and the refs of the component.
  \<open>localVideoRef\<close> is \<open>None\<close> when \<^verbatim>\<open>localVideoRef.current\<close> is null and
  \<open>Some src\<close> when the element exists with \<^verbatim>\<open>srcObject\<close> \<open>src\<close>.
  \<open>peerConnections\<close> is the object of the ref, by key; assigning to a key that is
  present overwrites its value. The list keeps the keys in insertion order;
  \<^verbatim>\<open>Object.values\<close> may enumerate them in another order, which the loops over it
  do not depend on (\<open>fold_close_order\<close> and \<open>fold_replaceIn_order\<close> below).
\<close>

record state =
  tracks :: "track_id \<Rightarrow> track"
  pcs :: "pc_id \<Rightarrow> pc"
  pc_count :: nat
  console :: "log list"
  isAudioEnabled :: bool
  isVideoEnabled :: bool
  isScreenSharing :: bool
  callDuration :: int
  localStream :: "stream option"
  localVideoRef :: "stream option option"
  peerConnections :: "(string \<times> pc_id) list"
  callStartTime :: int

subsection \<open>Mounting\<close>

text \<open>\<^verbatim>\<open>participant.id !== user?.id\<close>\<close>

definition remote :: "props \<Rightarrow> participant \<Rightarrow> bool" where
  "remote p participant \<longleftrightarrow> Some (p_id participant) \<noteq> user p"

text \<open>Lines 208 to 213: the speaking remote participant, else the first remote one.\<close>

definition getMainParticipant :: "props \<Rightarrow> participant option" where
  "getMainParticipant p =
     (case find (\<lambda>q. p_isSpeaking q \<and> remote p q) (participants p) of
        Some speakingParticipant \<Rightarrow> Some speakingParticipant
      | None \<Rightarrow> find (remote p) (participants p))"

text \<open>
  The first render, at clock reading \<open>now\<close> (lines 40 to 51), on a page whose stores
  and console are those of \<open>st\<close>. The local video element is rendered for a video call
  with a main participant (lines 256 and 288).
\<close>

definition mount :: "props \<Rightarrow> int \<Rightarrow> state \<Rightarrow> state" where
  "mount p now st =
     st\<lparr>isAudioEnabled := True,
        isVideoEnabled := (callType p = video),
        isScreenSharing := False,
        callDuration := 0,
        localStream := None,
        localVideoRef :=
          (if callType p = video \<and> getMainParticipant p \<noteq> None then Some None else None),
        peerConnections := [],
        callStartTime := now\<rparr>"

text \<open>
  Lines 54 to 57, the body of the interval callback, at clock reading \<open>now\<close>. Clock
  readings are integers (milliseconds), on which \<^verbatim>\<open>Math.floor(x / 1000)\<close> is \<open>div\<close>.
\<close>

definition tick :: "int \<Rightarrow> state \<Rightarrow> state" where
  "tick now st = st\<lparr>callDuration := (now - callStartTime st) div 1000\<rparr>"

text \<open>The durations shown after each of a list of ticks, the first tick first.\<close>

fun ticks :: "int list \<Rightarrow> state \<Rightarrow> int list" where
  "ticks [] st = []"
| "ticks (now # nows) st = callDuration (tick now st) # ticks nows (tick now st)"

subsection \<open>Media and peer connections\<close>

text \<open>
  Lines 96 to 106: the connection \<^verbatim>\<open>new RTCPeerConnection\<close> returns, after
  \<^verbatim>\<open>addTrack\<close> has made one sender for each track of the stream.
\<close>

definition newPeerConnection :: "stream \<Rightarrow> pc" where
  "newPeerConnection localStream' =
     \<lparr>senders = map (\<lambda>t. \<lparr>track = Some t, replaceCount = 0\<rparr>) localStream',
      closed = False,
      remoteCandidates = []\<rparr>"

text \<open>
  Lines 95 to 127. The two handlers set on the connection are \<open>onicecandidate\<close>
  below and \<^verbatim>\<open>ontrack\<close>.
\<close>

definition createPeerConnection :: "string \<Rightarrow> stream \<Rightarrow> state \<Rightarrow> state" where
  "createPeerConnection participantId localStream' st =
     (let peerConnection = newPeerConnection localStream'
      in st\<lparr>pcs := (pcs st)(pc_count st := peerConnection),
            pc_count := Suc (pc_count st),
            peerConnections := AList.update participantId (pc_count st) (peerConnections st)\<rparr>)"

text \<open>
  Lines 118 to 124, the \<^verbatim>\<open>onicecandidate\<close> handler of every peer connection, for an
  event whose \<^verbatim>\<open>candidate\<close> is \<open>candidate\<close> (\<open>None\<close> for null).
\<close>

definition onicecandidate :: "string option \<Rightarrow> state \<Rightarrow> state" where
  "onicecandidate candidate st =
     (case candidate of
        None \<Rightarrow> st
      | Some c \<Rightarrow> st\<lparr>console := console st @ [IceCandidate c]\<rparr>)"

text \<open>Lines 85 to 89, the callback of \<^verbatim>\<open>forEach\<close> over the roster.\<close>

abbreviation connect :: "props \<Rightarrow> stream \<Rightarrow> participant \<Rightarrow> state \<Rightarrow> state" where
  "connect p stream \<equiv>
     (\<lambda>participant s.
        if remote p participant
        then createPeerConnection (p_id participant) stream s
        else s)"

text \<open>
  Lines 70 to 93, from the \<^verbatim>\<open>await\<close> on: \<open>outcome\<close> is how \<^verbatim>\<open>getUserMedia\<close>
  settled.
\<close>

definition initializeMedia :: "props \<Rightarrow> error + stream \<Rightarrow> state \<Rightarrow> state" where
  "initializeMedia p outcome st =
     (case outcome of
        Inl e \<Rightarrow> st\<lparr>console := console st @ [ErrorAccessingMedia e]\<rparr>
      | Inr stream \<Rightarrow>
          (let st1 = st\<lparr>localStream := Some stream\<rparr>;
               st2 = (case localVideoRef st1 of
                        None \<Rightarrow> st1
                      | Some _ \<Rightarrow> st1\<lparr>localVideoRef := Some (Some stream)\<rparr>)
           in fold (connect p stream) (participants p) st2))"

text \<open>
  The promise of \<^verbatim>\<open>initializeMedia\<close>. The \<^verbatim>\<open>catch\<close> of lines 90 to 92 takes every
  rejection of \<^verbatim>\<open>getUserMedia\<close> and throws nothing itself, so the promise fulfils
  whatever the outcome was; the effect of line 64 does not read it.
\<close>

definition initializeMedia_promise :: "props \<Rightarrow> error + stream \<Rightarrow> state \<Rightarrow> error + state" where
  "initializeMedia_promise p outcome st = Inr (initializeMedia p outcome st)"

text \<open>
  \<^verbatim>\<open>track.stop()\<close> and \<^verbatim>\<open>pc.close()\<close> on the stores. A track that the browser
  ends by itself becomes ended as one that was stopped.
\<close>

definition stop :: "track_id \<Rightarrow> (track_id \<Rightarrow> track) \<Rightarrow> (track_id \<Rightarrow> track)" where
  "stop t ts = ts(t := (ts t)\<lparr>ended := True\<rparr>)"

definition close :: "pc_id \<Rightarrow> (pc_id \<Rightarrow> pc) \<Rightarrow> (pc_id \<Rightarrow> pc)" where
  "close i ps = ps(i := (ps i)\<lparr>closed := True\<rparr>)"

text \<open>
  Lines 129 to 139. \<open>localStream'\<close> is the binding of \<^verbatim>\<open>localStream\<close> in the render
  that created this \<^verbatim>\<open>cleanup\<close>.
\<close>

definition cleanup :: "stream option \<Rightarrow> state \<Rightarrow> state" where
  "cleanup localStream' st =
     (let st1 = (case localStream' of
                   None \<Rightarrow> st
                 | Some s \<Rightarrow> st\<lparr>tracks := fold stop s (tracks st)\<rparr>);
          st2 = st1\<lparr>pcs := fold close (map snd (peerConnections st1)) (pcs st1)\<rparr>
      in st2\<lparr>peerConnections := []\<rparr>)"

text \<open>
  Lines 59 and 63 to 68, the clean-ups of the two effects when the component unmounts
  (the end of the call). Both effects have an empty dependency list, so the clean-up
  that runs is the one the first render created, and in that render \<^verbatim>\<open>localStream\<close>
  is the initial \<^verbatim>\<open>null\<close> of line 45. Clearing the interval changes no field: no
  tick follows it. React drops the hooks and the video element of an unmounted
  component; the model keeps their fields, and what is proved of a state after the
  unmount reads the stores and \<^verbatim>\<open>peerConnections\<close> only.
\<close>

definition unmount :: "state \<Rightarrow> state" where
  "unmount st = cleanup None st"

subsection \<open>Toggles\<close>

text \<open>\<^verbatim>\<open>getAudioTracks()\<close> and \<^verbatim>\<open>getVideoTracks()\<close>\<close>

definition getAudioTracks :: "(track_id \<Rightarrow> track) \<Rightarrow> stream \<Rightarrow> track_id list" where
  "getAudioTracks ts s = filter (\<lambda>t. kind (ts t) = audio) s"

definition getVideoTracks :: "(track_id \<Rightarrow> track) \<Rightarrow> stream \<Rightarrow> track_id list" where
  "getVideoTracks ts s = filter (\<lambda>t. kind (ts t) = video) s"

text \<open>Lines 141 to 149.\<close>

definition toggleAudio :: "state \<Rightarrow> state" where
  "toggleAudio st =
     (case localStream st of
        None \<Rightarrow> st
      | Some s \<Rightarrow>
          (case getAudioTracks (tracks st) s of
             [] \<Rightarrow> st
           | audioTrack # _ \<Rightarrow>
               (let e = \<not> enabled (tracks st audioTrack)
                in st\<lparr>tracks := (tracks st)(audioTrack := (tracks st audioTrack)\<lparr>enabled := e\<rparr>),
                      isAudioEnabled := e\<rparr>)))"

text \<open>Lines 151 to 159.\<close>

definition toggleVideo :: "state \<Rightarrow> state" where
  "toggleVideo st =
     (case localStream st of
        None \<Rightarrow> st
      | Some s \<Rightarrow>
          (case getVideoTracks (tracks st) s of
             [] \<Rightarrow> st
           | videoTrack # _ \<Rightarrow>
               (let e = \<not> enabled (tracks st videoTrack)
                in st\<lparr>tracks := (tracks st)(videoTrack := (tracks st videoTrack)\<lparr>enabled := e\<rparr>),
                      isVideoEnabled := e\<rparr>)))"

subsection \<open>Screen sharing\<close>

text \<open>\<^verbatim>\<open>s.track && s.track.kind === 'video'\<close>\<close>

definition is_video :: "(track_id \<Rightarrow> track) \<Rightarrow> sender \<Rightarrow> bool" where
  "is_video ts s = (case track s of None \<Rightarrow> False | Some t \<Rightarrow> kind (ts t) = video)"

text \<open>
  Lines 171 to 176 and 188 to 193 on the senders of one peer connection:
  \<^verbatim>\<open>replaceTrack(new)\<close> on the first sender that \<^verbatim>\<open>find\<close> accepts, if there is one.
  The source does not await the promise of \<^verbatim>\<open>replaceTrack\<close>; the sender has the new
  track at once. \<open>replaceIn\<close> is the body of the loop for the connection at address
  \<open>i\<close>.
\<close>

fun replaceVideoTrack :: "(track_id \<Rightarrow> track) \<Rightarrow> track_id option \<Rightarrow> sender list \<Rightarrow> sender list" where
  "replaceVideoTrack ts new [] = []"
| "replaceVideoTrack ts new (s # ss) =
     (if is_video ts s
      then s\<lparr>track := new, replaceCount := Suc (replaceCount s)\<rparr> # ss
      else s # replaceVideoTrack ts new ss)"

definition replaceIn :: "(track_id \<Rightarrow> track) \<Rightarrow> track_id option \<Rightarrow> pc_id \<Rightarrow> (pc_id \<Rightarrow> pc) \<Rightarrow> (pc_id \<Rightarrow> pc)" where
  "replaceIn ts new i ps = ps(i := (ps i)\<lparr>senders := replaceVideoTrack ts new (senders (ps i))\<rparr>)"

text \<open>
  Lines 182 to 196, the \<^verbatim>\<open>onended\<close> handler of the screen track. When the stream has
  no video track \<^verbatim>\<open>cameraTrack\<close> is undefined and the loop replaces nothing.
\<close>

definition screen_onended :: "stream option \<Rightarrow> state \<Rightarrow> state" where
  "screen_onended localStream' st =
     (let st1 = st\<lparr>isScreenSharing := False\<rparr>
      in case localStream' of
           None \<Rightarrow> st1
         | Some s \<Rightarrow>
             (case getVideoTracks (tracks st1) s of
                [] \<Rightarrow> st1
              | cameraTrack # _ \<Rightarrow>
                  st1\<lparr>pcs := fold (replaceIn (tracks st1) (Some cameraTrack))
                                (map snd (peerConnections st1)) (pcs st1)\<rparr>))"

text \<open>
  Lines 161 to 200, from the \<^verbatim>\<open>await\<close> on: \<open>localStream'\<close> is the binding of
  \<^verbatim>\<open>localStream\<close> in the render whose button was clicked, \<open>outcome\<close> is how
  \<^verbatim>\<open>getDisplayMedia\<close> settled. When the screen stream has no video track,
  \<^verbatim>\<open>videoTrack\<close> is undefined: \<^verbatim>\<open>replaceTrack\<close> takes it as null, and setting
  \<^verbatim>\<open>onended\<close> on it throws into the \<^verbatim>\<open>catch\<close>.
\<close>

definition startScreenShare :: "stream option \<Rightarrow> error + stream \<Rightarrow> state \<Rightarrow> state" where
  "startScreenShare localStream' outcome st =
     (case outcome of
        Inl e \<Rightarrow> st\<lparr>console := console st @ [ErrorStartingScreenShare e]\<rparr>
      | Inr screenStream \<Rightarrow>
          (let videoTrack = (case getVideoTracks (tracks st) screenStream of
                               [] \<Rightarrow> None
                             | t # _ \<Rightarrow> Some t);
               st1 = st\<lparr>pcs := fold (replaceIn (tracks st) videoTrack)
                                 (map snd (peerConnections st)) (pcs st)\<rparr>;
               st2 = st1\<lparr>isScreenSharing := True\<rparr>
           in case videoTrack of
                None \<Rightarrow> st2\<lparr>console := console st2 @ [ErrorStartingScreenShare TypeError]\<rparr>
              | Some t \<Rightarrow>
                  st2\<lparr>tracks := (tracks st2)(t := (tracks st2 t)\<lparr>onended := Some localStream'\<rparr>)\<rparr>))"

text \<open>
  The browser ends track \<open>t\<close> (the user stops sharing from the browser's own controls):
  the track becomes ended and its \<^verbatim>\<open>onended\<close> handler, if any, runs.
\<close>

definition track_ended :: "track_id \<Rightarrow> state \<Rightarrow> state" where
  "track_ended t st =
     (let st1 = st\<lparr>tracks := stop t (tracks st)\<rparr>
      in case onended (tracks st t) of
           None \<Rightarrow> st1
         | Some ls \<Rightarrow> screen_onended ls st1)"

subsection \<open>The call manager\<close>

text \<open>
  Lines 603 to 606 of \<^verbatim>\<open>CallManager\<close>: the promise of the \<^verbatim>\<open>async\<close> function, which
  the body never rejects.
\<close>

definition startCall :: "media \<Rightarrow> string \<Rightarrow> state \<Rightarrow> error + state" where
  "startCall type participantId st =
     Inr (st\<lparr>console := console st @ [StartingCall type participantId]\<rparr>)"

subsection \<open>An example call\<close>

text \<open>
  The states the closed theorems below are evaluated on. \<open>newTrack\<close> is a track as
  the browser hands it out: enabled, live, no handler.
\<close>

definition newTrack :: "media \<Rightarrow> track" where
  "newTrack k = \<lparr>kind = k, enabled = True, ended = False, onended = None\<rparr>"

definition someone :: "string \<Rightarrow> participant" where
  "someone i =
     \<lparr>p_id = i, p_name = i, p_isAudioEnabled = True, p_isVideoEnabled = True,
      p_isSpeaking = False\<rparr>"

text \<open>A video call of the users 1, 2 and 3, seen by user 1.\<close>

definition example_props :: props where
  "example_props =
     \<lparr>chatId = ''chat'', callType = video,
      participants = [someone ''1'', someone ''2'', someone ''3''],
      user = Some ''1''\<rparr>"

text \<open>An audio call of the users 1 and 2, seen by user 1.\<close>

definition example_audio_props :: props where
  "example_audio_props =
     \<lparr>chatId = ''chat'', callType = audio,
      participants = [someone ''1'', someone ''2''],
      user = Some ''1''\<rparr>"

text \<open>
  A page with no peer connection and an empty console. Track 0 is the microphone,
  track 1 the camera and track 2 the screen, as the browser hands them out.
\<close>

definition example_page :: state where
  "example_page =
     \<lparr>tracks = (\<lambda>_. newTrack audio)(1 := newTrack video, 2 := newTrack video),
      pcs = (\<lambda>_. \<lparr>senders = [], closed = False, remoteCandidates = []\<rparr>),
      pc_count = 0,
      console = [],
      isAudioEnabled = False,
      isVideoEnabled = False,
      isScreenSharing = False,
      callDuration = 0,
      localStream = None,
      localVideoRef = None,
      peerConnections = [],
      callStartTime = 0\<rparr>"

text \<open>The video call once \<^verbatim>\<open>getUserMedia\<close> has delivered microphone and camera.\<close>

definition example_call :: state where
  "example_call =
     initializeMedia example_props (Inr [0, 1]) (mount example_props 0 example_page)"

text \<open>The audio call once \<^verbatim>\<open>getUserMedia\<close> has delivered the microphone.\<close>

definition example_audio_call :: state where
  "example_audio_call =
     initializeMedia example_audio_props (Inr [0])
       (mount example_audio_props 0 example_page)"

text \<open>The video call with the screen shared, the button clicked during the call.\<close>

definition example_sharing :: state where
  "example_sharing = startScreenShare (localStream example_call) (Inr [2]) example_call"

text \<open>
  The video call with the screen shared, the button clicked in the first render, while
  \<^verbatim>\<open>getUserMedia\<close> was pending: microphone and camera arrive, then the screen.
\<close>

definition example_late_sharing :: state where
  "example_late_sharing =
     startScreenShare (localStream (mount example_props 0 example_page)) (Inr [2])
       example_call"

section \<open>Properties\<close>

subsection \<open>The example states\<close>

text \<open>What the example states evaluate to.\<close>

lemma example_call_eval:
  "example_call =
     \<lparr>tracks = (\<lambda>_. newTrack audio)(1 := newTrack video, 2 := newTrack video),
      pcs = (\<lambda>_. \<lparr>senders = [], closed = False, remoteCandidates = []\<rparr>)
        (0 := \<lparr>senders = [\<lparr>track = Some 0, replaceCount = 0\<rparr>,
                           \<lparr>track = Some 1, replaceCount = 0\<rparr>],
                closed = False, remoteCandidates = []\<rparr>,
         Suc 0 := \<lparr>senders = [\<lparr>track = Some 0, replaceCount = 0\<rparr>,
                               \<lparr>track = Some 1, replaceCount = 0\<rparr>],
                    closed = False, remoteCandidates = []\<rparr>),
      pc_count = 2,
      console = [],
      isAudioEnabled = True,
      isVideoEnabled = True,
      isScreenSharing = False,
      callDuration = 0,
      localStream = Some [0, 1],
      localVideoRef = Some (Some [0, 1]),
      peerConnections = [(''2'', 0), (''3'', 1)],
      callStartTime = 0\<rparr>"
  by (simp add: example_call_def example_props_def example_page_def someone_def
      initializeMedia_def mount_def getMainParticipant_def remote_def
      createPeerConnection_def newPeerConnection_def Let_def numeral_2_eq_2)

lemma example_audio_call_eval:
  "example_audio_call =
     \<lparr>tracks = (\<lambda>_. newTrack audio)(1 := newTrack video, 2 := newTrack video),
      pcs = (\<lambda>_. \<lparr>senders = [], closed = False, remoteCandidates = []\<rparr>)
        (0 := \<lparr>senders = [\<lparr>track = Some 0, replaceCount = 0\<rparr>],
                closed = False, remoteCandidates = []\<rparr>),
      pc_count = 1,
      console = [],
      isAudioEnabled = True,
      isVideoEnabled = False,
      isScreenSharing = False,
      callDuration = 0,
      localStream = Some [0],
      localVideoRef = None,
      peerConnections = [(''2'', 0)],
      callStartTime = 0\<rparr>"
  by (simp add: example_audio_call_def example_audio_props_def example_page_def someone_def
      initializeMedia_def mount_def getMainParticipant_def remote_def
      createPeerConnection_def newPeerConnection_def Let_def)

lemma example_sharing_eval:
  "example_sharing =
     \<lparr>tracks = (\<lambda>_. newTrack audio)
        (1 := newTrack video,
         2 := \<lparr>kind = video, enabled = True, ended = False, onended = Some (Some [0, 1])\<rparr>),
      pcs = (\<lambda>_. \<lparr>senders = [], closed = False, remoteCandidates = []\<rparr>)
        (0 := \<lparr>senders = [\<lparr>track = Some 0, replaceCount = 0\<rparr>,
                           \<lparr>track = Some 2, replaceCount = 1\<rparr>],
                closed = False, remoteCandidates = []\<rparr>,
         Suc 0 := \<lparr>senders = [\<lparr>track = Some 0, replaceCount = 0\<rparr>,
                               \<lparr>track = Some 2, replaceCount = 1\<rparr>],
                    closed = False, remoteCandidates = []\<rparr>),
      pc_count = 2,
      console = [],
      isAudioEnabled = True,
      isVideoEnabled = True,
      isScreenSharing = True,
      callDuration = 0,
      localStream = Some [0, 1],
      localVideoRef = Some (Some [0, 1]),
      peerConnections = [(''2'', 0), (''3'', 1)],
      callStartTime = 0\<rparr>"
  by (simp add: example_sharing_def example_call_eval startScreenShare_def getVideoTracks_def
      newTrack_def replaceIn_def is_video_def Let_def fun_upd_twist)


subsection \<open>Stopping tracks and closing peer connections\<close>

lemma fold_stop:
  "fold stop s ts t = (if t \<in> set s then (ts t)\<lparr>ended := True\<rparr> else ts t)"
  by (induction s arbitrary: ts) (auto simp: stop_def)

lemma fold_close:
  "fold close js ps i = (if i \<in> set js then (ps i)\<lparr>closed := True\<rparr> else ps i)"
  by (induction js arbitrary: ps) (auto simp: close_def)

lemma fold_stop_twice: "fold stop s (fold stop s ts) = fold stop s ts"
  by (rule ext) (simp add: fold_stop)

lemma fold_close_order: "set js = set js' \<Longrightarrow> fold close js ps = fold close js' ps"
  by (rule ext) (simp add: fold_close)

text \<open>
  C8: \<^verbatim>\<open>cleanup\<close> is idempotent. Run a second time, from the same closure, it leaves
  the state exactly as the first run left it; it has no failing branch; after it every
  track of the stream it saw is ended, every peer connection that was in
  \<^verbatim>\<open>peerConnections\<close> is closed, and \<^verbatim>\<open>peerConnections\<close> is empty.
\<close>

theorem cleanup_idempotent:
  "cleanup ls (cleanup ls st) = cleanup ls st \<and>
   peerConnections (cleanup ls st) = [] \<and>
   (\<forall>s. ls = Some s \<longrightarrow> (\<forall>t \<in> set s. ended (tracks (cleanup ls st) t))) \<and>
   (\<forall>i \<in> snd ` set (peerConnections st). closed (pcs (cleanup ls st) i))"
  by (cases ls) (auto simp add: cleanup_def Let_def fold_stop_twice fold_stop fold_close)

theorem cleanup_idempotent_witness:
  "cleanup (Some [0, 1]) (cleanup (Some [0, 1]) example_call)
     = cleanup (Some [0, 1]) example_call \<and>
   peerConnections (cleanup (Some [0, 1]) example_call) = [] \<and>
   ended (tracks (cleanup (Some [0, 1]) example_call) 0) \<and>
   ended (tracks (cleanup (Some [0, 1]) example_call) 1) \<and>
   closed (pcs (cleanup (Some [0, 1]) example_call) 0) \<and>
   closed (pcs (cleanup (Some [0, 1]) example_call) 1) \<and>
   \<not> ended (tracks example_call 0) \<and> \<not> closed (pcs example_call 0)"
  using cleanup_idempotent [of "Some [0, 1]" example_call]
  by (simp add: example_call_eval newTrack_def)

subsection \<open>Toggles\<close>

lemma getAudioTracks_kind:
  "(\<And>t. kind (ts' t) = kind (ts t)) \<Longrightarrow> getAudioTracks ts' s = getAudioTracks ts s"
  by (simp add: getAudioTracks_def)

lemma getVideoTracks_kind:
  "(\<And>t. kind (ts' t) = kind (ts t)) \<Longrightarrow> getVideoTracks ts' s = getVideoTracks ts s"
  by (simp add: getVideoTracks_def)

lemma toggleAudio_step:
  assumes "localStream st = Some s" and "getAudioTracks (tracks st) s = a # rest"
  shows "toggleAudio st =
           st\<lparr>tracks := (tracks st)(a := (tracks st a)\<lparr>enabled := \<not> enabled (tracks st a)\<rparr>),
              isAudioEnabled := \<not> enabled (tracks st a)\<rparr>"
  using assms by (simp add: toggleAudio_def Let_def)

text \<open>The invariant of a run of toggles: only the enabled flag of the audio track moves.\<close>

lemma toggleAudio_funpow:
  assumes "localStream st = Some s" and "getAudioTracks (tracks st) s = a # rest"
  shows "localStream ((toggleAudio ^^ n) st) = Some s \<and>
         (\<forall>t. kind (tracks ((toggleAudio ^^ n) st) t) = kind (tracks st t)) \<and>
         (\<forall>t. ended (tracks ((toggleAudio ^^ n) st) t) = ended (tracks st t)) \<and>
         (\<forall>t. t \<noteq> a \<longrightarrow> tracks ((toggleAudio ^^ n) st) t = tracks st t) \<and>
         enabled (tracks ((toggleAudio ^^ n) st) a) = (enabled (tracks st a) = even n) \<and>
         (0 < n \<longrightarrow>
            isAudioEnabled ((toggleAudio ^^ n) st)
              = enabled (tracks ((toggleAudio ^^ n) st) a)) \<and>
         pcs ((toggleAudio ^^ n) st) = pcs st"
proof (induction n)
  case 0
  show ?case by (simp add: assms)
next
  case (Suc n)
  let ?st = "(toggleAudio ^^ n) st"
  from Suc.IH have ls: "localStream ?st = Some s"
    and kd: "\<And>t. kind (tracks ?st t) = kind (tracks st t)" by simp_all
  have au: "getAudioTracks (tracks ?st) s = a # rest"
    using getAudioTracks_kind [of "tracks ?st" "tracks st" s] kd assms(2) by simp
  have step: "(toggleAudio ^^ Suc n) st =
      ?st\<lparr>tracks := (tracks ?st)(a := (tracks ?st a)\<lparr>enabled := \<not> enabled (tracks ?st a)\<rparr>),
          isAudioEnabled := \<not> enabled (tracks ?st a)\<rparr>"
    using toggleAudio_step [OF ls au] by simp
  show ?case unfolding step using Suc.IH by auto
qed

text \<open>
  C5: in a state whose local stream has an audio track \<open>a\<close> (the first one) that is
  enabled, with the audio flag of the component set as the first render sets it, after
  \<open>n\<close> calls of \<^verbatim>\<open>toggleAudio\<close> the track is enabled exactly when \<open>n\<close> is even
  and the audio flag of the component equals the flag of the track. No track is ended
  by a toggle, no other track changes, and no peer connection changes.
\<close>

theorem toggleAudio_parity:
  assumes "localStream st = Some s"
    and "getAudioTracks (tracks st) s = a # rest"
    and "enabled (tracks st a)"
    and "isAudioEnabled st"
  shows "enabled (tracks ((toggleAudio ^^ n) st) a) = even n \<and>
         isAudioEnabled ((toggleAudio ^^ n) st) = enabled (tracks ((toggleAudio ^^ n) st) a) \<and>
         (\<forall>t. ended (tracks ((toggleAudio ^^ n) st) t) = ended (tracks st t)) \<and>
         (\<forall>t. t \<noteq> a \<longrightarrow> tracks ((toggleAudio ^^ n) st) t = tracks st t) \<and>
         pcs ((toggleAudio ^^ n) st) = pcs st \<and>
         localStream ((toggleAudio ^^ n) st) = localStream st"
proof (cases "n = 0")
  case True
  then show ?thesis using assms by simp
next
  case False
  then show ?thesis
    using toggleAudio_funpow [OF assms(1,2), of n] assms(1,3) by simp
qed

theorem toggleAudio_parity_witness:
  "enabled (tracks ((toggleAudio ^^ 3) example_call) 0) = even (3::nat) \<and>
   isAudioEnabled ((toggleAudio ^^ 3) example_call)
     = enabled (tracks ((toggleAudio ^^ 3) example_call) 0) \<and>
   \<not> ended (tracks ((toggleAudio ^^ 3) example_call) 0) \<and>
   tracks ((toggleAudio ^^ 3) example_call) 1 = tracks example_call 1 \<and>
   localStream example_call = Some [0, 1] \<and>
   getAudioTracks (tracks example_call) [0, 1] = [0] \<and>
   enabled (tracks example_call 0) \<and> isAudioEnabled example_call"
proof -
  have h: "localStream example_call = Some [0, 1]"
    "getAudioTracks (tracks example_call) [0, 1] = [0]"
    "enabled (tracks example_call 0)" "isAudioEnabled example_call"
    by (simp_all add: example_call_eval newTrack_def getAudioTracks_def)
  from toggleAudio_parity [OF h, of 3] h show ?thesis
    by (simp add: example_call_eval newTrack_def)
qed

text \<open>
  C10: \<^verbatim>\<open>toggleVideo\<close> is the identity on a state with no local stream and on a
  state whose local stream has no video track (an audio call); \<^verbatim>\<open>toggleAudio\<close>
  likewise for audio tracks. The state is unchanged as a whole, so no enabled flag of a
  track moves and the video and audio flags of the component keep their values; neither
  function has a failing branch.
\<close>

theorem toggle_without_track_is_noop:
  "(localStream st = None \<or>
      (\<exists>s. localStream st = Some s \<and> getVideoTracks (tracks st) s = [])
    \<longrightarrow> toggleVideo st = st) \<and>
   (localStream st = None \<or>
      (\<exists>s. localStream st = Some s \<and> getAudioTracks (tracks st) s = [])
    \<longrightarrow> toggleAudio st = st)"
  by (auto simp add: toggleVideo_def toggleAudio_def)

theorem toggle_without_track_is_noop_witness:
  "localStream example_audio_call = Some [0] \<and>
   getVideoTracks (tracks example_audio_call) [0] = [] \<and>
   toggleVideo example_audio_call = example_audio_call \<and>
   isVideoEnabled (toggleVideo example_audio_call) = False \<and>
   localStream (mount example_props 0 example_page) = None \<and>
   toggleAudio (mount example_props 0 example_page) = mount example_props 0 example_page \<and>
   toggleVideo (mount example_props 0 example_page) = mount example_props 0 example_page"
proof -
  have a: "localStream example_audio_call = Some [0]"
    "getVideoTracks (tracks example_audio_call) [0] = []"
    by (simp_all add: example_audio_call_eval getVideoTracks_def newTrack_def)
  have m: "localStream (mount example_props 0 example_page) = None"
    by (simp add: mount_def)
  from toggle_without_track_is_noop [of example_audio_call]
    toggle_without_track_is_noop [of "mount example_props 0 example_page"] a m
  show ?thesis by (simp add: example_audio_call_eval)
qed

subsection \<open>Peer connections of a new call\<close>

lemma connect_count:
  "pc_count (fold (connect p stream) ps st) = pc_count st + length (filter (remote p) ps)"
  by (induction ps arbitrary: st) (simp_all add: createPeerConnection_def Let_def)

lemma connect_pcs:
  "pcs (fold (connect p stream) ps st) i =
     (if pc_count st \<le> i \<and> i < pc_count st + length (filter (remote p) ps)
      then newPeerConnection stream else pcs st i)"
  by (induction ps arbitrary: st) (auto simp add: createPeerConnection_def Let_def)

lemma connect_keys:
  "fst ` set (peerConnections (fold (connect p stream) ps st)) =
     fst ` set (peerConnections st) \<union> p_id ` set (filter (remote p) ps)"
  by (induction ps arbitrary: st) (auto simp add: createPeerConnection_def Let_def dom_update)

lemma connect_other_key:
  "k \<notin> p_id ` set (filter (remote p) ps) \<Longrightarrow>
   map_of (peerConnections (fold (connect p stream) ps st)) k = map_of (peerConnections st) k"
  by (induction ps arbitrary: st) (auto simp add: createPeerConnection_def Let_def update_conv')

lemma connect_key:
  "distinct (map p_id (filter (remote p) ps)) \<Longrightarrow> i < length (filter (remote p) ps) \<Longrightarrow>
   map_of (peerConnections (fold (connect p stream) ps st)) (p_id (filter (remote p) ps ! i))
     = Some (pc_count st + i)"
proof (induction ps arbitrary: st i)
  case Nil
  then show ?case by simp
next
  case (Cons q ps)
  show ?case
  proof (cases "remote p q")
    case False
    with Cons show ?thesis by simp
  next
    case True
    let ?st = "createPeerConnection (p_id q) stream st"
    have d: "distinct (map p_id (filter (remote p) ps))" and nq: "p_id q \<notin> p_id ` set (filter (remote p) ps)"
      using Cons.prems(1) True by auto
    show ?thesis
    proof (cases i)
      case 0
      have "map_of (peerConnections (fold (connect p stream) ps ?st)) (p_id q)
              = map_of (peerConnections ?st) (p_id q)"
        by (rule connect_other_key [OF nq])
      also have "\<dots> = Some (pc_count st)"
        by (simp add: createPeerConnection_def Let_def update_conv')
      finally show ?thesis using True 0 by simp
    next
      case (Suc j)
      then have j: "j < length (filter (remote p) ps)" using Cons.prems(2) True by simp
      have "map_of (peerConnections (fold (connect p stream) ps ?st)) (p_id (filter (remote p) ps ! j))
              = Some (pc_count ?st + j)"
        by (rule Cons.IH [OF d j])
      then show ?thesis using True Suc by (simp add: createPeerConnection_def Let_def)
    qed
  qed
qed

lemma initializeMedia_fold:
  "initializeMedia p (Inr stream) st =
     fold (connect p stream) (participants p)
       (case localVideoRef st of None \<Rightarrow> st\<lparr>localStream := Some stream\<rparr>
        | Some _ \<Rightarrow> st\<lparr>localStream := Some stream, localVideoRef := Some (Some stream)\<rparr>)"
  by (simp add: initializeMedia_def Let_def split: option.split)

lemma filter_out_one:
  "distinct (map f xs) \<Longrightarrow> u \<in> f ` set xs \<Longrightarrow> length (filter (\<lambda>x. f x \<noteq> u) xs) = length xs - 1"
proof (induction xs)
  case Nil then show ?case by simp
next
  case (Cons x xs)
  show ?case
  proof (cases "f x = u")
    case True
    then have "u \<notin> f ` set xs" using Cons.prems(1) by auto
    then have "filter (\<lambda>x. f x \<noteq> u) xs = xs" by (auto simp: filter_id_conv)
    with True show ?thesis by simp
  next
    case False
    then have "u \<in> f ` set xs" using Cons.prems(2) by auto
    moreover then have "xs \<noteq> []" by auto
    ultimately show ?thesis using Cons False by (cases xs) auto
  qed
qed

text \<open>
  C6: when \<^verbatim>\<open>getUserMedia\<close> delivers the stream, \<^verbatim>\<open>initializeMedia\<close> creates one
  peer connection for each entry of the roster whose id differs from the id of the local
  user, in roster order, and none for the local user: the store grows by exactly that
  many connections, each new and open with one sender for each track of the stream, and
  the connections that existed are untouched. The keys added to \<^verbatim>\<open>peerConnections\<close>
  are the ids of those entries; when these ids are distinct, the id of the \<open>i\<close>-th of
  them is the key of the \<open>i\<close>-th new connection. For a roster of three entries with
  distinct ids, one of them the local user, exactly two connections are created.
\<close>

theorem initializeMedia_creates_remote_links:
  "(let rs = filter (remote p) (participants p);
        st' = initializeMedia p (Inr stream) st
    in pc_count st' = pc_count st + length rs \<and>
       (\<forall>i. pcs st' i =
          (if pc_count st \<le> i \<and> i < pc_count st + length rs
           then newPeerConnection stream else pcs st i)) \<and>
       fst ` set (peerConnections st') = fst ` set (peerConnections st) \<union> p_id ` set rs \<and>
       (\<forall>u. user p = Some u \<longrightarrow> u \<notin> p_id ` set rs) \<and>
       (distinct (map p_id rs) \<longrightarrow>
          (\<forall>i < length rs.
             map_of (peerConnections st') (p_id (rs ! i)) = Some (pc_count st + i))) \<and>
       (length (participants p) = 3 \<and> distinct (map p_id (participants p)) \<and>
        (\<exists>u. user p = Some u \<and> u \<in> p_id ` set (participants p))
          \<longrightarrow> length rs = 2))"
proof -
  let ?rs = "filter (remote p) (participants p)"
  let ?st0 = "case localVideoRef st of None \<Rightarrow> st\<lparr>localStream := Some stream\<rparr>
        | Some _ \<Rightarrow> st\<lparr>localStream := Some stream, localVideoRef := Some (Some stream)\<rparr>"
  have st0: "pc_count ?st0 = pc_count st" "pcs ?st0 = pcs st"
    "peerConnections ?st0 = peerConnections st"
    by (simp_all split: option.split)
  have c1: "pc_count (initializeMedia p (Inr stream) st) = pc_count st + length ?rs"
    by (simp only: initializeMedia_fold connect_count st0)
  have c2: "pcs (initializeMedia p (Inr stream) st) i =
          (if pc_count st \<le> i \<and> i < pc_count st + length ?rs
           then newPeerConnection stream else pcs st i)" for i
    by (simp only: initializeMedia_fold connect_pcs st0)
  have c3: "fst ` set (peerConnections (initializeMedia p (Inr stream) st))
              = fst ` set (peerConnections st) \<union> p_id ` set ?rs"
    by (simp only: initializeMedia_fold connect_keys st0)
  have c4: "u \<notin> p_id ` set ?rs" if "user p = Some u" for u
    using that by (auto simp add: remote_def)
  have c5: "map_of (peerConnections (initializeMedia p (Inr stream) st)) (p_id (?rs ! i))
              = Some (pc_count st + i)"
    if "distinct (map p_id ?rs)" and "i < length ?rs" for i
    using connect_key [OF that, of stream ?st0] by (simp only: initializeMedia_fold st0)
  have c6: "length ?rs = 2"
    if "length (participants p) = 3" and "distinct (map p_id (participants p))"
      and "user p = Some u" and "u \<in> p_id ` set (participants p)" for u
  proof -
    have "?rs = filter (\<lambda>q. p_id q \<noteq> u) (participants p)"
      using that(3) by (intro filter_cong) (simp_all add: remote_def)
    then show ?thesis using filter_out_one [OF that(2,4)] that(1) by simp
  qed
  show ?thesis
    unfolding Let_def
  proof (intro conjI allI impI)
    show "pc_count (initializeMedia p (Inr stream) st) = pc_count st + length ?rs"
      by (rule c1)
    show "pcs (initializeMedia p (Inr stream) st) i =
          (if pc_count st \<le> i \<and> i < pc_count st + length ?rs
           then newPeerConnection stream else pcs st i)" for i
      by (rule c2)
    show "fst ` set (peerConnections (initializeMedia p (Inr stream) st))
              = fst ` set (peerConnections st) \<union> p_id ` set ?rs"
      by (rule c3)
    show "u \<notin> p_id ` set ?rs" if "user p = Some u" for u
      using that by (rule c4)
    show "map_of (peerConnections (initializeMedia p (Inr stream) st)) (p_id (?rs ! i))
              = Some (pc_count st + i)"
      if "distinct (map p_id ?rs)" and "i < length ?rs" for i
      using that by (rule c5)
    show "length ?rs = 2"
      if "length (participants p) = 3 \<and> distinct (map p_id (participants p)) \<and>
        (\<exists>u. user p = Some u \<and> u \<in> p_id ` set (participants p))"
      using that c6 by blast
  qed
qed

theorem initializeMedia_creates_remote_links_witness:
  "filter (remote example_props) (participants example_props) = [someone ''2'', someone ''3''] \<and>
   length (participants example_props) = 3 \<and>
   distinct (map p_id (participants example_props)) \<and>
   user example_props = Some ''1'' \<and>
   pc_count (mount example_props 0 example_page) = 0 \<and>
   pc_count example_call = 2 \<and>
   pcs example_call 0 = newPeerConnection [0, 1] \<and>
   pcs example_call 1 = newPeerConnection [0, 1] \<and>
   map_of (peerConnections example_call) ''2'' = Some 0 \<and>
   map_of (peerConnections example_call) ''3'' = Some 1 \<and>
   map_of (peerConnections example_call) ''1'' = None \<and>
   fst ` set (peerConnections example_call) = {''2'', ''3''}"
proof -
  have rs: "filter (remote example_props) (participants example_props)
              = [someone ''2'', someone ''3'']"
    by (simp add: example_props_def remote_def someone_def)
  have m: "pc_count (mount example_props 0 example_page) = 0"
    "peerConnections (mount example_props 0 example_page) = []"
    by (simp_all add: mount_def example_page_def)
  have p: "length (participants example_props) = 3"
    "distinct (map p_id (participants example_props))"
    "user example_props = Some ''1''"
    by (simp_all add: example_props_def someone_def)
  from initializeMedia_creates_remote_links
    [of example_props "[0, 1]" "mount example_props 0 example_page"]
  show ?thesis
    unfolding Let_def rs example_call_def [symmetric] m
    using p rs by (simp add: example_call_eval newPeerConnection_def)
qed

subsection \<open>The end of a screen share\<close>

lemma is_video_kind:
  "(\<And>t. kind (ts' t) = kind (ts t)) \<Longrightarrow> is_video ts' x = is_video ts x"
  by (simp add: is_video_def split: option.split)

lemma replaceVideoTrack_kind:
  "(\<And>t. kind (ts' t) = kind (ts t)) \<Longrightarrow> replaceVideoTrack ts' new ss = replaceVideoTrack ts new ss"
  by (induction ss) (simp_all add: is_video_kind [of ts' ts])

lemma kind_stop [simp]: "kind (stop t ts u) = kind (ts u)"
  by (simp add: stop_def)

lemma fold_replaceIn:
  "distinct js \<Longrightarrow>
   fold (replaceIn ts new) js ps i =
     (if i \<in> set js then (ps i)\<lparr>senders := replaceVideoTrack ts new (senders (ps i))\<rparr> else ps i)"
  by (induction js arbitrary: ps) (auto simp add: replaceIn_def)

lemma fold_replaceIn_order:
  "distinct js \<Longrightarrow> distinct js' \<Longrightarrow> set js = set js' \<Longrightarrow>
   fold (replaceIn ts new) js ps = fold (replaceIn ts new) js' ps"
  by (rule ext) (simp add: fold_replaceIn)

lemma replaceVideoTrack_none:
  "\<forall>x \<in> set ss. \<not> is_video ts x \<Longrightarrow> replaceVideoTrack ts new ss = ss"
  by (induction ss) simp_all

lemma replaceVideoTrack_first:
  "\<exists>x \<in> set ss. is_video ts x \<Longrightarrow>
   \<exists>j < length ss. is_video ts (ss ! j) \<and> (\<forall>k < j. \<not> is_video ts (ss ! k)) \<and>
      replaceVideoTrack ts new ss =
        ss[j := (ss ! j)\<lparr>track := new, replaceCount := Suc (replaceCount (ss ! j))\<rparr>]"
proof (induction ss)
  case Nil
  then show ?case by simp
next
  case (Cons s ss)
  show ?case
  proof (cases "is_video ts s")
    case True
    then show ?thesis by (intro exI [of _ 0]) simp
  next
    case False
    with Cons.prems have "\<exists>x \<in> set ss. is_video ts x" by simp
    from Cons.IH [OF this] obtain j where j: "j < length ss" "is_video ts (ss ! j)"
      "\<forall>k < j. \<not> is_video ts (ss ! k)"
      "replaceVideoTrack ts new ss =
        ss[j := (ss ! j)\<lparr>track := new, replaceCount := Suc (replaceCount (ss ! j))\<rparr>]"
      by blast
    have "\<forall>k < Suc j. \<not> is_video ts ((s # ss) ! k)"
      using False j(3) by (auto simp add: less_Suc_eq_0_disj)
    with j False show ?thesis by (intro exI [of _ "Suc j"]) simp
  qed
qed

text \<open>
  What a share that starts leaves behind: the handler on the screen track, holding the
  binding of \<^verbatim>\<open>localStream\<close> of the render whose button was clicked.
\<close>

lemma startScreenShare_sets_handler:
  assumes "getVideoTracks (tracks st) screenStream = scr # rest"
  shows "onended (tracks (startScreenShare ls (Inr screenStream) st) scr) = Some ls \<and>
         (\<forall>t. kind (tracks (startScreenShare ls (Inr screenStream) st) t) = kind (tracks st t)) \<and>
         peerConnections (startScreenShare ls (Inr screenStream) st) = peerConnections st \<and>
         localStream (startScreenShare ls (Inr screenStream) st) = localStream st \<and>
         isScreenSharing (startScreenShare ls (Inr screenStream) st)"
  using assms by (simp add: startScreenShare_def Let_def)

lemma track_ended_handler:
  assumes "onended (tracks st scr) = Some (Some s)"
    and "getVideoTracks (tracks st) s = cam # rest"
  shows "track_ended scr st =
           st\<lparr>tracks := stop scr (tracks st),
              isScreenSharing := False,
              pcs := fold (replaceIn (tracks st) (Some cam)) (map snd (peerConnections st)) (pcs st)\<rparr>"
proof -
  have v: "getVideoTracks (stop scr (tracks st)) s = cam # rest"
    using getVideoTracks_kind [of "stop scr (tracks st)" "tracks st" s] assms(2) by simp
  have r: "replaceIn (stop scr (tracks st)) (Some cam) = replaceIn (tracks st) (Some cam)"
    by (intro ext) (simp add: replaceIn_def replaceVideoTrack_kind [of "stop scr (tracks st)" "tracks st"])
  show ?thesis
    using assms(1) v r by (simp add: track_ended_def screen_onended_def Let_def)
qed

text \<open>
  The restore when the share was started during the call. Let the screen track
  \<open>scr\<close> carry the handler of a share that was started when the local stream
  \<open>s\<close> was acquired, let \<open>cam\<close> be the first video track of
  \<open>s\<close> (the camera), and let every key of \<^verbatim>\<open>peerConnections\<close> hold a connection
  of its own. When the browser ends \<open>scr\<close>, then in every peer connection of
  \<^verbatim>\<open>peerConnections\<close> either there is no video sender and the connection is
  unchanged, or exactly one sender changes: the first video sender, which now sends
  \<open>cam\<close> and on which \<^verbatim>\<open>replaceTrack\<close> was called exactly once more. Every sender
  that is not a video sender (every audio sender) is unchanged, every other peer
  connection is unchanged, no track changes but for \<open>scr\<close> being ended, and the
  screen-sharing flag is cleared.
\<close>

theorem screen_share_end_restores_camera:
  assumes "onended (tracks st scr) = Some (Some s)"
    and "getVideoTracks (tracks st) s = cam # rest"
    and "distinct (map snd (peerConnections st))"
  shows "(\<forall>i \<in> snd ` set (peerConnections st).
            ((\<forall>x \<in> set (senders (pcs st i)). \<not> is_video (tracks st) x) \<and>
               pcs (track_ended scr st) i = pcs st i)
          \<or> (\<exists>j < length (senders (pcs st i)).
               is_video (tracks st) (senders (pcs st i) ! j) \<and>
               (\<forall>k < j. \<not> is_video (tracks st) (senders (pcs st i) ! k)) \<and>
               pcs (track_ended scr st) i =
                 (pcs st i)\<lparr>senders := (senders (pcs st i))
                    [j := (senders (pcs st i) ! j)
                            \<lparr>track := Some cam,
                             replaceCount := Suc (replaceCount (senders (pcs st i) ! j))\<rparr>]\<rparr>)) \<and>
         (\<forall>i \<in> snd ` set (peerConnections st). \<forall>k < length (senders (pcs st i)).
            \<not> is_video (tracks st) (senders (pcs st i) ! k) \<longrightarrow>
            senders (pcs (track_ended scr st) i) ! k = senders (pcs st i) ! k) \<and>
         (\<forall>i. i \<notin> snd ` set (peerConnections st) \<longrightarrow> pcs (track_ended scr st) i = pcs st i) \<and>
         tracks (track_ended scr st) = stop scr (tracks st) \<and>
         kind (tracks st cam) = video \<and>
         isScreenSharing (track_ended scr st) = False \<and>
         peerConnections (track_ended scr st) = peerConnections st \<and>
         localStream (track_ended scr st) = localStream st"
proof -
  note te = track_ended_handler [OF assms(1,2)]
  have pcs': "pcs (track_ended scr st) i =
      (if i \<in> snd ` set (peerConnections st)
       then (pcs st i)\<lparr>senders := replaceVideoTrack (tracks st) (Some cam) (senders (pcs st i))\<rparr>
       else pcs st i)" for i
    unfolding te using fold_replaceIn [OF assms(3)] by simp
  have cam: "kind (tracks st cam) = video"
  proof -
    have "cam \<in> set (getVideoTracks (tracks st) s)" using assms(2) by simp
    then show ?thesis by (simp add: getVideoTracks_def)
  qed
  have one: "((\<forall>x \<in> set (senders (pcs st i)). \<not> is_video (tracks st) x) \<and>
               pcs (track_ended scr st) i = pcs st i)
          \<or> (\<exists>j < length (senders (pcs st i)).
               is_video (tracks st) (senders (pcs st i) ! j) \<and>
               (\<forall>k < j. \<not> is_video (tracks st) (senders (pcs st i) ! k)) \<and>
               pcs (track_ended scr st) i =
                 (pcs st i)\<lparr>senders := (senders (pcs st i))
                    [j := (senders (pcs st i) ! j)
                            \<lparr>track := Some cam,
                             replaceCount := Suc (replaceCount (senders (pcs st i) ! j))\<rparr>]\<rparr>)"
    if i: "i \<in> snd ` set (peerConnections st)" for i
  proof (cases "\<exists>x \<in> set (senders (pcs st i)). is_video (tracks st) x")
    case False
    then have "replaceVideoTrack (tracks st) (Some cam) (senders (pcs st i)) = senders (pcs st i)"
      by (intro replaceVideoTrack_none) simp
    with False i have "(\<forall>x \<in> set (senders (pcs st i)). \<not> is_video (tracks st) x) \<and>
               pcs (track_ended scr st) i = pcs st i"
      by (simp add: pcs')
    then show ?thesis by (rule disjI1)
  next
    case True
    from replaceVideoTrack_first [OF True, of "Some cam"]
    obtain j where j: "j < length (senders (pcs st i))"
      "is_video (tracks st) (senders (pcs st i) ! j)"
      "\<forall>k < j. \<not> is_video (tracks st) (senders (pcs st i) ! k)"
      "replaceVideoTrack (tracks st) (Some cam) (senders (pcs st i)) =
         (senders (pcs st i))[j := (senders (pcs st i) ! j)
            \<lparr>track := Some cam, replaceCount := Suc (replaceCount (senders (pcs st i) ! j))\<rparr>]"
      by blast
    have "pcs (track_ended scr st) i =
                 (pcs st i)\<lparr>senders := (senders (pcs st i))
                    [j := (senders (pcs st i) ! j)
                            \<lparr>track := Some cam,
                             replaceCount := Suc (replaceCount (senders (pcs st i) ! j))\<rparr>]\<rparr>"
      using i by (simp only: pcs' j(4) if_True)
    with j(1,2,3) show ?thesis by (intro disjI2 exI [of _ j]) simp
  qed
  have audio: "senders (pcs (track_ended scr st) i) ! k = senders (pcs st i) ! k"
    if i: "i \<in> snd ` set (peerConnections st)" and k: "k < length (senders (pcs st i))"
      and nv: "\<not> is_video (tracks st) (senders (pcs st i) ! k)" for i k
  proof -
    from one [OF i] show ?thesis
    proof
      assume "(\<forall>x \<in> set (senders (pcs st i)). \<not> is_video (tracks st) x) \<and>
               pcs (track_ended scr st) i = pcs st i"
      then show ?thesis by simp
    next
      assume "\<exists>j < length (senders (pcs st i)).
               is_video (tracks st) (senders (pcs st i) ! j) \<and>
               (\<forall>k < j. \<not> is_video (tracks st) (senders (pcs st i) ! k)) \<and>
               pcs (track_ended scr st) i =
                 (pcs st i)\<lparr>senders := (senders (pcs st i))
                    [j := (senders (pcs st i) ! j)
                            \<lparr>track := Some cam,
                             replaceCount := Suc (replaceCount (senders (pcs st i) ! j))\<rparr>]\<rparr>"
      then obtain j where j: "is_video (tracks st) (senders (pcs st i) ! j)"
        "pcs (track_ended scr st) i =
                 (pcs st i)\<lparr>senders := (senders (pcs st i))
                    [j := (senders (pcs st i) ! j)
                            \<lparr>track := Some cam,
                             replaceCount := Suc (replaceCount (senders (pcs st i) ! j))\<rparr>]\<rparr>"
        by blast
      from j(1) nv have "j \<noteq> k" by auto
      then show ?thesis by (simp add: j(2))
    qed
  qed
  have other: "pcs (track_ended scr st) i = pcs st i" if "i \<notin> snd ` set (peerConnections st)" for i
    using that by (simp add: pcs')
  have rest: "tracks (track_ended scr st) = stop scr (tracks st)"
    "isScreenSharing (track_ended scr st) = False"
    "peerConnections (track_ended scr st) = peerConnections st"
    "localStream (track_ended scr st) = localStream st"
    by (simp_all add: te)
  from one audio other cam rest show ?thesis by blast
qed

theorem screen_share_end_restores_camera_witness:
  "onended (tracks example_sharing 2) = Some (Some [0, 1]) \<and>
   getVideoTracks (tracks example_sharing) [0, 1] = [1] \<and>
   distinct (map snd (peerConnections example_sharing)) \<and>
   snd ` set (peerConnections example_sharing) = {0, 1} \<and>
   senders (pcs example_sharing 0)
     = [\<lparr>track = Some 0, replaceCount = 0\<rparr>, \<lparr>track = Some 2, replaceCount = 1\<rparr>] \<and>
   senders (pcs (track_ended 2 example_sharing) 0)
     = [\<lparr>track = Some 0, replaceCount = 0\<rparr>, \<lparr>track = Some 1, replaceCount = 2\<rparr>] \<and>
   senders (pcs (track_ended 2 example_sharing) 1)
     = [\<lparr>track = Some 0, replaceCount = 0\<rparr>, \<lparr>track = Some 1, replaceCount = 2\<rparr>] \<and>
   isScreenSharing (track_ended 2 example_sharing) = False"
proof -
  have h: "onended (tracks example_sharing 2) = Some (Some [0, 1])"
    "getVideoTracks (tracks example_sharing) [0, 1] = [1]"
    "distinct (map snd (peerConnections example_sharing))"
    by (simp_all add: example_sharing_eval getVideoTracks_def newTrack_def)
  have e: "track_ended 2 example_sharing =
     example_sharing\<lparr>tracks := stop 2 (tracks example_sharing),
        isScreenSharing := False,
        pcs := (pcs example_sharing)
          (0 := \<lparr>senders = [\<lparr>track = Some 0, replaceCount = 0\<rparr>,
                           \<lparr>track = Some 1, replaceCount = 2\<rparr>],
                closed = False, remoteCandidates = []\<rparr>,
           Suc 0 := \<lparr>senders = [\<lparr>track = Some 0, replaceCount = 0\<rparr>,
                               \<lparr>track = Some 1, replaceCount = 2\<rparr>],
                    closed = False, remoteCandidates = []\<rparr>)\<rparr>"
    by (simp add: track_ended_handler [OF h(1,2)])
      (simp add: example_sharing_eval replaceIn_def is_video_def newTrack_def numeral_2_eq_2)
  from screen_share_end_restores_camera [OF h] h show ?thesis
    by (simp add: e) (simp add: example_sharing_eval)
qed

lemma example_late_sharing_eval:
  "example_late_sharing =
     example_sharing\<lparr>tracks := (tracks example_sharing)
       (2 := \<lparr>kind = video, enabled = True, ended = False, onended = Some None\<rparr>)\<rparr>"
  by (simp add: example_late_sharing_def example_sharing_def example_call_eval mount_def
      startScreenShare_def getVideoTracks_def newTrack_def Let_def)

text \<open>
  C7 does not hold of the code. In the example call the share button is clicked in
  the first render, where \<^verbatim>\<open>localStream\<close> is null; microphone and camera arrive
  and the two peer connections are created; the screen stream arrives and its track
  replaces the camera in the video sender of both connections. When the browser then
  ends the screen track, the handler finds its \<^verbatim>\<open>localStream\<close> null and restores
  nothing: the video sender of both connections still holds the ended screen track 2,
  not the camera track 1, and \<^verbatim>\<open>replaceTrack\<close> was called on it once, for the share.
\<close>

theorem late_share_not_restored:
  "localStream (mount example_props 0 example_page) = None \<and>
   senders (pcs example_late_sharing 0)
     = [\<lparr>track = Some 0, replaceCount = 0\<rparr>, \<lparr>track = Some 2, replaceCount = 1\<rparr>] \<and>
   senders (pcs (track_ended 2 example_late_sharing) 0)
     = [\<lparr>track = Some 0, replaceCount = 0\<rparr>, \<lparr>track = Some 2, replaceCount = 1\<rparr>] \<and>
   senders (pcs (track_ended 2 example_late_sharing) 1)
     = [\<lparr>track = Some 0, replaceCount = 0\<rparr>, \<lparr>track = Some 2, replaceCount = 1\<rparr>] \<and>
   ended (tracks (track_ended 2 example_late_sharing) 2) \<and>
   \<not> ended (tracks (track_ended 2 example_late_sharing) 1) \<and>
   peerConnections (track_ended 2 example_late_sharing) = [(''2'', 0), (''3'', 1)]"
  by (simp add: example_late_sharing_eval track_ended_def screen_onended_def stop_def
      mount_def)
    (simp add: example_sharing_eval newTrack_def)

subsection \<open>The duration timer\<close>

lemma ticks_map:
  "ticks nows st = map (\<lambda>now. (now - callStartTime st) div 1000) nows"
  by (induction nows arbitrary: st) (simp_all add: tick_def)

text \<open>
  C9, as stated, fails: the duration is not recomputed when it is read. The component
  shows \<^verbatim>\<open>callDuration\<close>, which only the interval callback writes. With the call
  started at clock reading 0 and the callback run at 1004, the duration shown at 2003 is
  still 1, while the elapsed time at 2003 gives 2.
\<close>

theorem duration_counterexample:
  "callDuration (tick 1004 (mount example_props 0 example_page)) = 1 \<and>
   (2003 - callStartTime (tick 1004 (mount example_props 0 example_page))) div 1000 = 2 \<and>
   callDuration (tick 1004 (mount example_props 0 example_page))
     \<noteq> (2003 - callStartTime (tick 1004 (mount example_props 0 example_page))) div 1000"
  by (simp add: tick_def mount_def)

text \<open>
  C9, amended: the duration shown is the value the last run of the interval callback
  stored. Each run stores the whole seconds between the recorded start and the clock
  reading of that run, whatever was stored before (nothing is accumulated), and leaves
  the recorded start alone. The duration is 0 at the first render. Hence, when the
  clock readings at the first render and at the successive runs never decrease, the
  durations shown never decrease either.
\<close>

theorem ticks_monotone:
  "callDuration (tick now st) = (now - callStartTime st) div 1000 \<and>
   callStartTime (tick now st) = callStartTime st \<and>
   callDuration (mount p now0 st) = 0 \<and>
   (sorted (now0 # nows) \<longrightarrow>
      sorted (callDuration (mount p now0 st) # ticks nows (mount p now0 st)))"
proof -
  have "sorted (0 # map (\<lambda>now. (now - now0) div 1000) nows)" if "sorted (now0 # nows)"
  proof -
    have "sorted (map (\<lambda>now. (now - now0) div 1000) (now0 # nows))"
      using that
      by (intro sorted_map [THEN iffD2])
        (auto simp add: sorted_wrt_iff_nth_less intro!: zdiv_mono1)
    then show ?thesis by simp
  qed
  then show ?thesis by (simp add: ticks_map) (simp add: tick_def mount_def)
qed

theorem ticks_monotone_witness:
  "sorted [0, 1004, 2008, 3001 :: int] \<and>
   ticks [1004, 2008, 3001] (mount example_props 0 example_page) = [1, 2, 3] \<and>
   sorted (callDuration (mount example_props 0 example_page)
            # ticks [1004, 2008, 3001] (mount example_props 0 example_page))"
  using ticks_monotone [of 1004 example_page example_props 0 "[1004, 2008, 3001]"]
  by (simp add: tick_def mount_def)

subsection \<open>ICE candidates\<close>

lemma fold_onicecandidate:
  "fold onicecandidate cs st =
     st\<lparr>console := console st @
           map IceCandidate (concat (map (\<lambda>c. case c of None \<Rightarrow> [] | Some x \<Rightarrow> [x]) cs))\<rparr>"
  by (induction cs arbitrary: st) (simp_all add: onicecandidate_def split: option.split)

text \<open>
  For every sequence of candidate events, \<^verbatim>\<open>onicecandidate\<close> writes each candidate
  that is not null to the console, in arrival order, and changes nothing else. The
  source has no other entry for candidates: nothing receives a candidate of the remote
  side, and no local description is ever set.
\<close>

lemma onicecandidate_only_logs:
  "console (fold onicecandidate cs st) =
     console st @
       map IceCandidate (concat (map (\<lambda>c. case c of None \<Rightarrow> [] | Some x \<Rightarrow> [x]) cs)) \<and>
   pcs (fold onicecandidate cs st) = pcs st \<and>
   (fold onicecandidate cs st)\<lparr>console := console st\<rparr> = st"
  by (simp add: fold_onicecandidate)

subsection \<open>Starting a call from the call manager\<close>

text \<open>
  C2, as stated, fails: with the example call running (stream acquired, connections
  open), \<^verbatim>\<open>startCall\<close> does not fail with \<open>AlreadyInSession\<close>.
\<close>

theorem startCall_counterexample:
  "startCall video ''2'' example_call \<noteq> Inl AlreadyInSession \<and>
   localStream example_call = Some [0, 1] \<and>
   \<not> closed (pcs example_call 0)"
  by (simp add: startCall_def example_call_eval)

text \<open>
  C2, amended: \<^verbatim>\<open>startCall\<close> never fails, whether or not a call is running. It
  writes one line to the console and leaves everything else as it was: no second call,
  no peer connection and no stream is created, and a running call is untouched.
\<close>

theorem startCall_only_logs:
  "\<exists>st'. startCall type participantId st = Inr st' \<and>
         console st' = console st @ [StartingCall type participantId] \<and>
         st'\<lparr>console := console st\<rparr> = st"
  by (simp add: startCall_def)

subsection \<open>Failing and late device acquisition\<close>

text \<open>
  C4, as stated, fails: the start does not fail, and the call does not stay idle. With
  \<^verbatim>\<open>getUserMedia\<close> rejected in the example call, the promise of
  \<^verbatim>\<open>initializeMedia\<close> is not rejected; apart from the line on the console the
  component is in the state of a call that was just started, and its timer goes on
  counting the duration of the call.
\<close>

theorem device_unavailable_counterexample:
  "initializeMedia_promise example_props (Inl DeviceUnavailable)
     (mount example_props 0 example_page) \<noteq> Inl DeviceUnavailable \<and>
   (initializeMedia example_props (Inl DeviceUnavailable)
      (mount example_props 0 example_page))\<lparr>console := []\<rparr>
     = mount example_props 0 example_page \<and>
   ticks [1000, 2000, 61000]
     (initializeMedia example_props (Inl DeviceUnavailable)
        (mount example_props 0 example_page)) = [1, 2, 61]"
  by (simp add: initializeMedia_promise_def initializeMedia_def mount_def tick_def
      example_page_def)

text \<open>
  C4, amended: when \<^verbatim>\<open>getUserMedia\<close> rejects, \<^verbatim>\<open>initializeMedia\<close> catches the
  rejection and reports it on the console; its promise fulfils, so no failure reaches
  a caller. Nothing but the console changes. In a call that was just mounted this
  means: no local stream is stored in the state or in the video element,
  \<^verbatim>\<open>peerConnections\<close> is empty, and the stores hold the peer connections and
  tracks they held before the call, so no connection was created and no track is left
  behind. The component stays mounted as a call that was just started: a later run of
  the interval callback still stores the seconds since the start.
\<close>

theorem device_unavailable_only_logs:
  "initializeMedia_promise p (Inl e) st = Inr (initializeMedia p (Inl e) st) \<and>
   (initializeMedia p (Inl e) st)\<lparr>console := console st\<rparr> = st \<and>
   console (initializeMedia p (Inl e) st) = console st @ [ErrorAccessingMedia e] \<and>
   localStream (initializeMedia p (Inl e) (mount p now st)) = None \<and>
   (\<forall>x. localVideoRef (initializeMedia p (Inl e) (mount p now st)) \<noteq> Some (Some x)) \<and>
   peerConnections (initializeMedia p (Inl e) (mount p now st)) = [] \<and>
   pcs (initializeMedia p (Inl e) (mount p now st)) = pcs st \<and>
   pc_count (initializeMedia p (Inl e) (mount p now st)) = pc_count st \<and>
   tracks (initializeMedia p (Inl e) (mount p now st)) = tracks st \<and>
   callDuration (tick later (initializeMedia p (Inl e) (mount p now st)))
     = (later - now) div 1000"
  by (simp add: initializeMedia_promise_def initializeMedia_def mount_def tick_def)

text \<open>
  C1 does not hold of the code. The call of the example is mounted and ended while
  \<^verbatim>\<open>getUserMedia\<close> is pending; the promise then delivers microphone and camera.
  The continuation of \<^verbatim>\<open>initializeMedia\<close> runs all the same: at the end both tracks
  are live, two peer connections are open, and \<^verbatim>\<open>peerConnections\<close> holds them.
\<close>

theorem end_before_media_leaks:
  "\<not> ended (tracks (initializeMedia example_props (Inr [0, 1])
                     (unmount (mount example_props 0 example_page))) 0) \<and>
   \<not> ended (tracks (initializeMedia example_props (Inr [0, 1])
                     (unmount (mount example_props 0 example_page))) 1) \<and>
   \<not> closed (pcs (initializeMedia example_props (Inr [0, 1])
                     (unmount (mount example_props 0 example_page))) 0) \<and>
   \<not> closed (pcs (initializeMedia example_props (Inr [0, 1])
                     (unmount (mount example_props 0 example_page))) 1) \<and>
   peerConnections (initializeMedia example_props (Inr [0, 1])
                     (unmount (mount example_props 0 example_page)))
     = [(''2'', 0), (''3'', 1)]"
proof -
  have "unmount (mount example_props 0 example_page) = mount example_props 0 example_page"
    by (simp add: unmount_def cleanup_def mount_def)
  then have "initializeMedia example_props (Inr [0, 1])
               (unmount (mount example_props 0 example_page)) = example_call"
    by (simp only: example_call_def)
  then show ?thesis
    by (simp only:) (simp add: example_call_eval newTrack_def)
qed

text \<open>
  Two more facts about closures that saw \<^verbatim>\<open>localStream\<close> as null. The clean-up that
  runs at unmount closes the peer connections and empties \<^verbatim>\<open>peerConnections\<close>, and
  stops no track. The \<^verbatim>\<open>onended\<close> handler of a share that was started before the
  stream was acquired only clears the screen-sharing flag.
\<close>

lemma unmount_keeps_tracks:
  "tracks (unmount st) = tracks st \<and>
   peerConnections (unmount st) = [] \<and>
   (\<forall>i \<in> snd ` set (peerConnections st). closed (pcs (unmount st) i))"
  by (simp add: unmount_def cleanup_def fold_close)

lemma screen_onended_without_stream:
  "screen_onended None st = st\<lparr>isScreenSharing := False\<rparr>"
  by (simp add: screen_onended_def)

end
